theory Spec2Isabelle
  imports Complex_Main "HOL-Library.Sublist"
begin

section \<open>Prompt Builder\<close>

text \<open>
  \<^verbatim>\<open>create_drug_search_prompt\<close> of \<^verbatim>\<open>main.py\<close> assembles one string from six
  literals. A Python \<^verbatim>\<open>str\<close> is modelled as a \<^typ>\<open>string\<close>, a list of characters, so
  that \<^verbatim>\<open>+\<close> is \<^const>\<open>append\<close>, \<^verbatim>\<open>len\<close> is \<^const>\<open>length\<close> and the slice
  \<^verbatim>\<open>s[:n]\<close> is \<^term>\<open>take n s\<close>. Each literal is written one source line per row.
\<close>

text \<open>The f-string of \<^verbatim>\<open>base_prompt\<close>, up to the placeholder of the drug name.\<close>

definition base_prompt_intro :: string where
  "base_prompt_intro =
     ''\<newline>'' @
     ''    Search for comprehensive information about the drug \"''"

text \<open>The same f-string, after the placeholder.\<close>

definition base_prompt_body :: string where
  "base_prompt_body =
     ''\" and provide detailed, accurate information from authoritative medical sources. \<newline>'' @
     ''\<newline>'' @
     ''    Please provide the following information in a structured format:\<newline>'' @
     ''\<newline>'' @
     ''    1. **Basic Information:**\<newline>'' @
     ''       - Official drug name\<newline>'' @
     ''       - Generic name (if applicable)\<newline>'' @
     ''       - Common brand names\<newline>'' @
     ''       - Drug classification/category\<newline>'' @
     ''\<newline>'' @
     ''    2. **Medical Information:**\<newline>'' @
     ''       - Primary indications (what conditions it treats)\<newline>'' @
     ''       - Mechanism of action (how it works)\<newline>'' @
     ''       - Therapeutic category\<newline>'' @
     ''\<newline>'' @
     ''    3. **Regulatory Information:**\<newline>'' @
     ''       - FDA approval status\<newline>'' @
     ''       - Available formulations (tablets, injection, etc.)\<newline>'' @
     ''       - Prescription vs OTC status\<newline>'' @
     ''    ''"

text \<open>The literal appended under \<^verbatim>\<open>if include_dosage\<close>.\<close>

definition dosage_section :: string where
  "dosage_section =
     ''\<newline>'' @
     ''    4. **Dosage Information:**\<newline>'' @
     ''       - Typical adult dosage\<newline>'' @
     ''       - Pediatric dosage (if applicable)\<newline>'' @
     ''       - Administration route\<newline>'' @
     ''       - Frequency of administration\<newline>'' @
     ''        ''"

text \<open>The literal appended under \<^verbatim>\<open>if include_side_effects\<close>.\<close>

definition safety_section :: string where
  "safety_section =
     ''\<newline>'' @
     ''    5. **Safety Information:**\<newline>'' @
     ''       - Common side effects\<newline>'' @
     ''       - Serious/rare side effects\<newline>'' @
     ''       - Contraindications\<newline>'' @
     ''       - Important warnings and precautions\<newline>'' @
     ''        ''"

text \<open>The literal appended under \<^verbatim>\<open>if include_interactions\<close>.\<close>

definition interactions_section :: string where
  "interactions_section =
     ''\<newline>'' @
     ''    6. **Drug Interactions:**\<newline>'' @
     ''       - Major drug interactions\<newline>'' @
     ''       - Food interactions\<newline>'' @
     ''       - Alcohol interactions\<newline>'' @
     ''        ''"

text \<open>The literal appended last, outside every condition.\<close>

definition closing_instructions :: string where
  "closing_instructions =
     ''\<newline>'' @
     ''\<newline>'' @
     ''    **Important Instructions:**\<newline>'' @
     ''    - Only use information from authoritative medical sources (FDA, EMA, PubMed, medical textbooks, official drug labels)\<newline>'' @
     ''    - Ensure all information is current and accurate\<newline>'' @
     ''    - If certain information is not available or unclear, state that explicitly\<newline>'' @
     ''    - Include the sources where you found this information\<newline>'' @
     ''    - Format the response in clear, structured sections\<newline>'' @
     ''    - Use medical terminology appropriately but explain complex terms\<newline>'' @
     ''\<newline>'' @
     ''    Please search the web for the most current and accurate information about this drug.\<newline>'' @
     ''    ''"

text \<open>
  The function itself: \<^verbatim>\<open>base_prompt\<close> is assigned once and then extended in place by
  three guarded \<^verbatim>\<open>+=\<close> and a final unguarded one. Every rebinding of the variable is a
  \<^verbatim>\<open>let\<close> of the model.
\<close>

definition create_drug_search_prompt :: "string \<Rightarrow> bool \<Rightarrow> bool \<Rightarrow> bool \<Rightarrow> string" where
  "create_drug_search_prompt drug_name include_dosage include_side_effects include_interactions =
     (let base_prompt = base_prompt_intro @ drug_name @ base_prompt_body;
          base_prompt = (if include_dosage then base_prompt @ dosage_section else base_prompt);
          base_prompt = (if include_side_effects then base_prompt @ safety_section else base_prompt);
          base_prompt = (if include_interactions then base_prompt @ interactions_section else base_prompt);
          base_prompt = base_prompt @ closing_instructions
      in base_prompt)"


section \<open>Values, time and the provider\<close>

text \<open>
  The values the handlers put into their dictionaries. \<^term>\<open>PIso t\<close> stands for the string
  \<^verbatim>\<open>t.isoformat()\<close> of the datetime \<^term>\<open>t\<close>: the rendering is the standard library's
  and is kept symbolic. A Python \<^verbatim>\<open>dict\<close> literal is an association list in the order
  of its keys.
\<close>

datatype pyval =
    PNone
  | PBool bool
  | PStr string
  | PIso int
  | PDict "(string \<times> pyval) list"

fun dict_get :: "pyval \<Rightarrow> string \<Rightarrow> pyval option" where
  "dict_get (PDict kvs) k = map_of kvs k"
| "dict_get _ k = None"

text \<open>
  A \<^verbatim>\<open>datetime\<close> is a count of microseconds and so is the difference of two;
  \<^verbatim>\<open>total_seconds()\<close> divides by \<open>10\<^sup>6\<close>.
\<close>

definition total_seconds :: "int \<Rightarrow> real" where
  "total_seconds d = real_of_int d / 1000000"

text \<open>
  The keyword arguments of \<^verbatim>\<open>openai_client.chat.completions.create\<close>, by name, and what
  the call gives back: an exception, kept as its text \<^verbatim>\<open>str(e)\<close>, or a completion, of
  which the handlers read \<^verbatim>\<open>choices[0].message.content\<close> only.
\<close>

datatype arg =
    AStr string
  | AInt int
  | AMessages "(string \<times> string) list list"

type_synonym kwargs = "(string \<times> arg) list"

datatype choice = Choice (message_content: "string option")

datatype chat_completion = ChatCompletion (choices: "choice list")

text \<open>
  A configured client. Its answer to a call may depend on every call made before, so it
  is a function of the log of earlier calls and of the arguments of this one.
\<close>

datatype client = Client (answer: "kwargs list \<Rightarrow> kwargs \<Rightarrow> string + chat_completion")

text \<open>
  What a handler can observe and change outside its arguments: the readings of
  \<^verbatim>\<open>datetime.now()\<close>, of which \<^term>\<open>ticks w\<close> have been taken, and the log of the calls
  sent to the provider.
\<close>

record world =
  clock :: "nat \<Rightarrow> int"
  ticks :: nat
  calls :: "kwargs list"

definition datetime_now :: "world \<Rightarrow> int \<times> world" where
  "datetime_now w = (clock w (ticks w), w\<lparr>ticks := Suc (ticks w)\<rparr>)"

definition chat_completions_create ::
  "client \<Rightarrow> kwargs \<Rightarrow> world \<Rightarrow> (string + chat_completion) \<times> world" where
  "chat_completions_create c kw w = (answer c (calls w) kw, w\<lparr>calls := calls w @ [kw]\<rparr>)"

text \<open>
  \<^verbatim>\<open>response.choices[0].message.content\<close>: indexing an empty list raises
  \<^verbatim>\<open>IndexError\<close>, whose text is the one below.
\<close>

fun first_content :: "chat_completion \<Rightarrow> string + string option" where
  "first_content (ChatCompletion []) = Inl ''list index out of range''"
| "first_content (ChatCompletion (c # cs)) = Inr (message_content c)"

fun content_val :: "string option \<Rightarrow> pyval" where
  "content_val None = PNone"
| "content_val (Some s) = PStr s"

section \<open>Request and response models\<close>

record DrugSearchRequest =
  drug_name :: string
  include_dosage :: bool
  include_side_effects :: bool
  include_interactions :: bool

record APIResponse =
  success :: bool
  data :: "pyval option"
  message :: "string option"
  error :: "string option"
  processing_time :: "real option"

text \<open>
  \<^verbatim>\<open>Field(..., min_length=1, max_length=100)\<close> on \<^verbatim>\<open>drug_name\<close>, and the same bounds on
  the query parameter of the quick form: the length of the string as given, nothing
  stripped.
\<close>

definition valid_drug_name :: "string \<Rightarrow> bool" where
  "valid_drug_name s = (1 \<le> length s \<and> length s \<le> 100)"

text \<open>
  The constructor \<^verbatim>\<open>DrugSearchRequest(...)\<close>: \<^const>\<open>None\<close> is pydantic's
  \<^verbatim>\<open>ValidationError\<close>.
\<close>

definition new_DrugSearchRequest ::
  "string \<Rightarrow> bool \<Rightarrow> bool \<Rightarrow> bool \<Rightarrow> DrugSearchRequest option" where
  "new_DrugSearchRequest dn d s i =
     (if valid_drug_name dn
      then Some \<lparr>drug_name = dn, include_dosage = d, include_side_effects = s,
                 include_interactions = i\<rparr>
      else None)"

text \<open>
  What a handler raises: \<^verbatim>\<open>HTTPException(status_code, detail)\<close>, or a
  \<^verbatim>\<open>ValidationError\<close> that nothing catches.
\<close>

datatype handler_exn =
    HTTPException (status_code: nat) (detail: string)
  | ValidationError

section \<open>Search Gateway\<close>

definition system_instruction :: string where
  "system_instruction =
     ''You are a medical information specialist. Search the web to find accurate, up-to-date drug information from authoritative medical sources like FDA, EMA, PubMed, and medical literature. Provide comprehensive, well-structured responses with source citations.''"

definition search_kwargs :: "string \<Rightarrow> kwargs" where
  "search_kwargs search_prompt =
     [(''model'', AStr ''gpt-4o-search-preview''),
      (''messages'', AMessages
         [[(''role'', ''system''), (''content'', system_instruction)],
          [(''role'', ''user''), (''content'', search_prompt)]]),
      (''max_tokens'', AInt 2000)]"

text \<open>
  \<^verbatim>\<open>search_drug\<close>. The guard on the client comes first and raises outside the
  \<^verbatim>\<open>try\<close>; everything from the prompt to the returned \<^verbatim>\<open>APIResponse\<close> is inside
  it, and the \<^verbatim>\<open>except Exception\<close> branch reads the clock once more before it raises.
\<close>

definition search_drug ::
  "client option \<Rightarrow> DrugSearchRequest \<Rightarrow> world \<Rightarrow> (handler_exn + APIResponse) \<times> world" where
  "search_drug openai_client request w =
     (case openai_client of
        None \<Rightarrow>
          (Inl (HTTPException 503
             ''OpenAI client not configured. Please set OPENAI_API_KEY environment variable.''), w)
      | Some c \<Rightarrow>
          (let (start_time, w1) = datetime_now w;
               search_prompt = create_drug_search_prompt (drug_name request)
                 (include_dosage request) (include_side_effects request)
                 (include_interactions request);
               (r, w2) = chat_completions_create c (search_kwargs search_prompt) w1
           in case (case r of Inl e \<Rightarrow> Inl e | Inr response \<Rightarrow> first_content response) of
                Inr drug_info_text \<Rightarrow>
                  (let (t, w3) = datetime_now w2;
                       processing_time = total_seconds (t - start_time)
                   in (Inr \<lparr>success = True,
                            data = Some (PDict
                              [(''drug_name'', PStr (drug_name request)),
                               (''search_query'', PStr (take 200 search_prompt @ ''...'')),
                               (''drug_information'', content_val drug_info_text),
                               (''search_options'', PDict
                                  [(''include_dosage'', PBool (include_dosage request)),
                                   (''include_side_effects'', PBool (include_side_effects request)),
                                   (''include_interactions'', PBool (include_interactions request))]),
                               (''timestamp'', PIso start_time)]),
                            message = Some (''Successfully retrieved information for '' @
                              [CHR 0x27] @ drug_name request @ [CHR 0x27]),
                            error = None,
                            processing_time = Some processing_time\<rparr>, w3))
              | Inl e \<Rightarrow>
                  (let (t, w3) = datetime_now w2;
                       processing_time = total_seconds (t - start_time)
                   in (Inl (HTTPException 500
                         (''Failed to search for drug information: '' @ e)), w3))))"

text \<open>
  \<^verbatim>\<open>quick_drug_search\<close> builds the request of the detailed form and awaits
  \<^verbatim>\<open>search_drug\<close> on it.
\<close>

definition quick_drug_search ::
  "client option \<Rightarrow> string \<Rightarrow> world \<Rightarrow> (handler_exn + APIResponse) \<times> world" where
  "quick_drug_search openai_client dn w =
     (case new_DrugSearchRequest dn True True False of
        None \<Rightarrow> (Inl ValidationError, w)
      | Some request \<Rightarrow> search_drug openai_client request w)"

section \<open>Health check\<close>

definition health_kwargs :: kwargs where
  "health_kwargs =
     [(''model'', AStr ''gpt-4o''),
      (''messages'', AMessages
         [[(''role'', ''user''),
           (''content'', ''Say '' @ [CHR 0x27] @ ''API connection successful'' @ [CHR 0x27])]]),
      (''max_tokens'', AInt 10)]"

text \<open>
  \<^verbatim>\<open>health_check\<close>: the whole body is inside one \<^verbatim>\<open>try\<close>, and each of the three
  \<^verbatim>\<open>return\<close> statements reads the clock for its own timestamp.
\<close>

definition health_check :: "client option \<Rightarrow> world \<Rightarrow> (string \<times> pyval) list \<times> world" where
  "health_check openai_client w =
     (case openai_client of
        None \<Rightarrow>
          (let (t, w1) = datetime_now w
           in ([(''status'', PStr ''warning''),
                (''openai_client'', PStr ''not_configured''),
                (''message'', PStr ''OpenAI API key not configured''),
                (''timestamp'', PIso t)], w1))
      | Some c \<Rightarrow>
          (let (r, w1) = chat_completions_create c health_kwargs w
           in case r of
                Inr response \<Rightarrow>
                  (let (t, w2) = datetime_now w1
                   in ([(''status'', PStr ''healthy''),
                        (''openai_client'', PStr ''connected''),
                        (''model'', PStr ''gpt-4o''),
                        (''timestamp'', PIso t)], w2))
              | Inl e \<Rightarrow>
                  (let (t, w2) = datetime_now w1
                   in ([(''status'', PStr ''error''),
                        (''openai_client'', PStr ''error''),
                        (''error'', PStr e),
                        (''timestamp'', PIso t)], w2))))"


section \<open>Routes\<close>

text \<open>
  The decorators hand the two search handlers to the framework, which checks the declared
  parameters before it calls a handler and turns what the handler returns or raises into
  a response. A parameter that fails its declaration is answered with status 422, naming
  where the parameter stood; an \<^verbatim>\<open>HTTPException\<close> is answered with its own status and
  detail; any other exception with status 500.
\<close>

datatype location = Body | Query

datatype http_response =
    Ok APIResponse
  | HttpError nat string
  | Unprocessable location
  | InternalServerError

fun status :: "http_response \<Rightarrow> nat" where
  "status (Ok r) = 200"
| "status (HttpError code d) = code"
| "status (Unprocessable l) = 422"
| "status InternalServerError = 500"

fun to_response :: "handler_exn + APIResponse \<Rightarrow> http_response" where
  "to_response (Inr r) = Ok r"
| "to_response (Inl (HTTPException code d)) = HttpError code d"
| "to_response (Inl ValidationError) = InternalServerError"

text \<open>
  The JSON body of \<^verbatim>\<open>POST /search/drug\<close>, field by field: a field may be absent, and
  the three flags then take the defaults of their \<^verbatim>\<open>Field\<close> declarations.
\<close>

record search_body =
  body_drug_name :: "string option"
  body_include_dosage :: "bool option"
  body_include_side_effects :: "bool option"
  body_include_interactions :: "bool option"

definition parse_body :: "search_body \<Rightarrow> DrugSearchRequest option" where
  "parse_body b =
     (case body_drug_name b of
        None \<Rightarrow> None
      | Some dn \<Rightarrow>
          new_DrugSearchRequest dn
            (case body_include_dosage b of None \<Rightarrow> True | Some v \<Rightarrow> v)
            (case body_include_side_effects b of None \<Rightarrow> True | Some v \<Rightarrow> v)
            (case body_include_interactions b of None \<Rightarrow> False | Some v \<Rightarrow> v))"

definition post_search_drug ::
  "client option \<Rightarrow> search_body \<Rightarrow> world \<Rightarrow> http_response \<times> world" where
  "post_search_drug openai_client b w =
     (case parse_body b of
        None \<Rightarrow> (Unprocessable Body, w)
      | Some request \<Rightarrow>
          (let (out, w') = search_drug openai_client request w in (to_response out, w')))"

text \<open>
  \<^verbatim>\<open>GET /search/quick\<close>: the query parameter is required and carries the bounds of
  \<^const>\<open>valid_drug_name\<close>.
\<close>

definition get_search_quick ::
  "client option \<Rightarrow> string option \<Rightarrow> world \<Rightarrow> http_response \<times> world" where
  "get_search_quick openai_client q w =
     (case q of
        None \<Rightarrow> (Unprocessable Query, w)
      | Some dn \<Rightarrow>
          if valid_drug_name dn
          then (let (out, w') = quick_drug_search openai_client dn w in (to_response out, w'))
          else (Unprocessable Query, w))"

section \<open>Notions of the specification\<close>

text \<open>
  The preview of the prompt inside the data of a response: the value under
  \<^verbatim>\<open>search_query\<close>.
\<close>

definition preview :: "APIResponse \<Rightarrow> pyval option" where
  "preview r = (case data r of None \<Rightarrow> None | Some d \<Rightarrow> dict_get d ''search_query'')"

text \<open>
  The envelope the specification describes for a failed search: \<^verbatim>\<open>success\<close> false, an
  \<^verbatim>\<open>error\<close> text containing the provider's, and a processing time that is present and
  not negative.
\<close>

definition failure_envelope :: "string \<Rightarrow> handler_exn + APIResponse \<Rightarrow> bool" where
  "failure_envelope E out =
     (case out of
        Inl x \<Rightarrow> False
      | Inr r \<Rightarrow>
          \<not> success r \<and>
          (case error r of None \<Rightarrow> False | Some m \<Rightarrow> sublist E m) \<and>
          (case processing_time r of None \<Rightarrow> False | Some t \<Rightarrow> 0 \<le> t))"

text \<open>
  Trimming, as the specification's invariant on the drug name has it: \<^verbatim>\<open>str.strip()\<close>,
  which drops the white space at both ends. The characters are those for which
  \<^verbatim>\<open>str.isspace()\<close> holds below code point 256.
\<close>

definition isspace :: "char \<Rightarrow> bool" where
  "isspace c = (of_char c \<in> {9, 10, 11, 12, 13, 28, 29, 30, 31, 32, 133, 160 :: nat})"

definition strip :: "string \<Rightarrow> string" where
  "strip s = rev (dropWhile isspace (rev (dropWhile isspace s)))"


section \<open>Shorthand and sample inputs\<close>

abbreviation request_prompt :: "DrugSearchRequest \<Rightarrow> string" where
  "request_prompt request \<equiv>
     create_drug_search_prompt (drug_name request) (include_dosage request)
       (include_side_effects request) (include_interactions request)"

definition unconfigured_detail :: string where
  "unconfigured_detail =
     ''OpenAI client not configured. Please set OPENAI_API_KEY environment variable.''"

text \<open>
  A world whose clock advances by a quarter of a second at each reading, a client whose
  provider answers every call, and one whose provider raises on every call.
\<close>

definition sample_world :: world where
  "sample_world = \<lparr>clock = (\<lambda>n. 250000 * int n), ticks = 0, calls = []\<rparr>"

definition answering_client :: client where
  "answering_client =
     Client (\<lambda>log kw. Inr (ChatCompletion [Choice (Some ''Aspirin is an NSAID.'')]))"

definition failing_client :: client where
  "failing_client = Client (\<lambda>log kw. Inl ''Connection error.'')"

definition aspirin_request :: DrugSearchRequest where
  "aspirin_request =
     \<lparr>drug_name = ''aspirin'', include_dosage = True, include_side_effects = True,
      include_interactions = False\<rparr>"

definition aspirin_body :: search_body where
  "aspirin_body =
     \<lparr>body_drug_name = Some ''aspirin'', body_include_dosage = Some True,
      body_include_side_effects = Some True, body_include_interactions = Some False\<rparr>"

definition blank_body :: search_body where
  "blank_body =
     \<lparr>body_drug_name = Some '' '', body_include_dosage = None,
      body_include_side_effects = None, body_include_interactions = None\<rparr>"

definition long_name_body :: search_body where
  "long_name_body =
     \<lparr>body_drug_name = Some (replicate 101 (CHR ''a'')), body_include_dosage = None,
      body_include_side_effects = None, body_include_interactions = None\<rparr>"

section \<open>Lengths of the literals\<close>

lemma length_base_prompt_intro: "length base_prompt_intro = 58"
  by (simp add: base_prompt_intro_def)

lemma length_base_prompt_body: "length base_prompt_body = 643"
  by (simp add: base_prompt_body_def)

lemma length_dosage_section: "length dosage_section = 179"
  by (simp add: dosage_section_def)

lemma length_safety_section: "length safety_section = 175"
  by (simp add: safety_section_def)

lemma length_interactions_section: "length interactions_section = 129"
  by (simp add: interactions_section_def)

lemma length_closing_instructions: "length closing_instructions = 568"
  by (simp add: closing_instructions_def)

lemma prompt_closed_form:
  "create_drug_search_prompt dn d s i =
     base_prompt_intro @ dn @ base_prompt_body @
     (if d then dosage_section else []) @
     (if s then safety_section else []) @
     (if i then interactions_section else []) @
     closing_instructions"
  by (simp add: create_drug_search_prompt_def)

lemma length_prompt:
  "length (create_drug_search_prompt dn d s i) =
     1269 + length dn + (if d then 179 else 0) + (if s then 175 else 0) +
     (if i then 129 else 0)"
  by (simp add: prompt_closed_form length_base_prompt_intro length_base_prompt_body
      length_dosage_section length_safety_section length_interactions_section
      length_closing_instructions)

text \<open>
  The first 200 characters never leave the f-string: its fixed text alone is 701
  characters long.
\<close>

lemma take_200_prompt:
  "take 200 (create_drug_search_prompt dn d s i) =
     take 200 (base_prompt_intro @ dn @ base_prompt_body)"
proof -
  let ?head = "base_prompt_intro @ dn @ base_prompt_body"
  have "200 \<le> length ?head"
    by (simp add: length_base_prompt_intro length_base_prompt_body)
  then have cut: "take 200 (?head @ rest) = take 200 ?head" for rest
    by simp
  have "create_drug_search_prompt dn d s i =
      ?head @ ((if d then dosage_section else []) @ (if s then safety_section else []) @
        (if i then interactions_section else []) @ closing_instructions)"
    by (simp add: prompt_closed_form)
  then show ?thesis
    by (simp only: cut)
qed

section \<open>The gateway, outcome by outcome\<close>

lemma search_drug_unconfigured:
  "search_drug None request w = (Inl (HTTPException 503 unconfigured_detail), w)"
  by (simp add: search_drug_def unconfigured_detail_def)

lemma search_drug_calls:
  "calls (snd (search_drug (Some c) request w)) =
     calls w @ [search_kwargs (request_prompt request)]"
  by (simp add: search_drug_def datetime_now_def chat_completions_create_def Let_def
      split: sum.split prod.split)

lemma search_drug_ticks:
  "ticks (snd (search_drug (Some c) request w)) = ticks w + 2"
  by (simp add: search_drug_def datetime_now_def chat_completions_create_def Let_def
      split: sum.split prod.split)

lemma search_drug_raised:
  assumes "answer c (calls w) (search_kwargs (request_prompt request)) = Inl E"
  shows "fst (search_drug (Some c) request w) =
     Inl (HTTPException 500 (''Failed to search for drug information: '' @ E))"
  using assms
  by (simp add: search_drug_def datetime_now_def chat_completions_create_def Let_def)

lemma search_drug_answered:
  assumes "answer c (calls w) (search_kwargs (request_prompt request)) =
     Inr (ChatCompletion (Choice reply # others))"
  shows "fst (search_drug (Some c) request w) =
     Inr \<lparr>success = True,
          data = Some (PDict
            [(''drug_name'', PStr (drug_name request)),
             (''search_query'', PStr (take 200 (request_prompt request) @ ''...'')),
             (''drug_information'', content_val reply),
             (''search_options'', PDict
                [(''include_dosage'', PBool (include_dosage request)),
                 (''include_side_effects'', PBool (include_side_effects request)),
                 (''include_interactions'', PBool (include_interactions request))]),
             (''timestamp'', PIso (clock w (ticks w)))]),
          message = Some (''Successfully retrieved information for '' @
            [CHR 0x27] @ drug_name request @ [CHR 0x27]),
          error = None,
          processing_time =
            Some (total_seconds (clock w (Suc (ticks w)) - clock w (ticks w)))\<rparr>"
  using assms
  by (simp add: search_drug_def datetime_now_def chat_completions_create_def Let_def)

lemma search_drug_returned:
  assumes "fst (search_drug (Some c) request w) = Inr r"
  shows "success r"
    and "preview r = Some (PStr (take 200 (request_prompt request) @ ''...''))"
  using assms
  by (auto simp add: search_drug_def datetime_now_def chat_completions_create_def Let_def
      preview_def split: sum.splits prod.splits)

lemma answering_client_search:
  "fst (search_drug (Some answering_client) request sample_world) =
     Inr (projr (fst (search_drug (Some answering_client) request sample_world)))"
  by (simp add: search_drug_answered [where reply = "Some ''Aspirin is an NSAID.''" and others = "[]"]
      answering_client_def)

lemma parse_body_valid:
  "parse_body b = Some request \<Longrightarrow>
     body_drug_name b = Some (drug_name request) \<and> valid_drug_name (drug_name request)"
  by (auto simp add: parse_body_def new_DrugSearchRequest_def split: option.splits if_splits)

lemma parse_body_invalid:
  "body_drug_name b = Some dn \<Longrightarrow> \<not> valid_drug_name dn \<Longrightarrow> parse_body b = None"
  by (simp add: parse_body_def new_DrugSearchRequest_def)

section \<open>The claims\<close>

subsection \<open>C1: the sections of the prompt\<close>

text \<open>
  Claim C1. For every drug name and each of the eight combinations of the three flags,
  the prompt is the fixed preamble around the drug name, then the dosage section exactly
  when \<^verbatim>\<open>include_dosage\<close> is set, then the safety section exactly when
  \<^verbatim>\<open>include_side_effects\<close> is set, then the interactions section exactly when
  \<^verbatim>\<open>include_interactions\<close> is set, then the closing instructions, in that order. The
  flags can be read back from the prompt: two combinations give the same prompt for a
  drug name only when they are the same combination.
\<close>

theorem prompt_sections_in_fixed_order:
  "create_drug_search_prompt dn d s i =
     (base_prompt_intro @ dn @ base_prompt_body) @
     (if d then dosage_section else []) @
     (if s then safety_section else []) @
     (if i then interactions_section else []) @
     closing_instructions
   \<and> (create_drug_search_prompt dn d s i = create_drug_search_prompt dn d' s' i'
        \<longleftrightarrow> d = d' \<and> s = s' \<and> i = i')"
proof
  show "create_drug_search_prompt dn d s i =
     (base_prompt_intro @ dn @ base_prompt_body) @
     (if d then dosage_section else []) @
     (if s then safety_section else []) @
     (if i then interactions_section else []) @
     closing_instructions"
    by (simp add: prompt_closed_form)
next
  show "create_drug_search_prompt dn d s i = create_drug_search_prompt dn d' s' i'
        \<longleftrightarrow> d = d' \<and> s = s' \<and> i = i'"
  proof
    assume "create_drug_search_prompt dn d s i = create_drug_search_prompt dn d' s' i'"
    then have "length (create_drug_search_prompt dn d s i) =
        length (create_drug_search_prompt dn d' s' i')"
      by simp
    then show "d = d' \<and> s = s' \<and> i = i'"
      unfolding length_prompt by (auto split: if_splits)
  qed simp
qed

text \<open>
  The combination dosage and interactions without safety, for aspirin.
\<close>

theorem prompt_sections_in_fixed_order_witness:
  "create_drug_search_prompt ''aspirin'' True False True =
     (base_prompt_intro @ ''aspirin'' @ base_prompt_body) @
     dosage_section @ interactions_section @ closing_instructions
   \<and> create_drug_search_prompt ''aspirin'' True False True \<noteq>
     create_drug_search_prompt ''aspirin'' False False True"
proof -
  note t = prompt_sections_in_fixed_order [of "''aspirin''" True False True False False True]
  from t [THEN conjunct1] have a: "create_drug_search_prompt ''aspirin'' True False True =
     (base_prompt_intro @ ''aspirin'' @ base_prompt_body) @
     dosage_section @ interactions_section @ closing_instructions"
    by (simp only: if_True if_False append_Nil)
  from t [THEN conjunct2] have b: "create_drug_search_prompt ''aspirin'' True False True \<noteq>
     create_drug_search_prompt ''aspirin'' False False True"
    by (simp only: simp_thms)
  from a b show ?thesis by (rule conjI)
qed

subsection \<open>C2: a failing provider\<close>

text \<open>
  Claim C2 as the specification words it asks for an \<^verbatim>\<open>APIResponse\<close> whose
  \<^verbatim>\<open>success\<close> is false, whose \<^verbatim>\<open>error\<close> contains the provider's text and whose
  processing time is present. The handler returns no response on this path: it raises
  \<^verbatim>\<open>HTTPException\<close> with status 500, and the elapsed time it computed is not part of
  what it raises.
\<close>

theorem upstream_failure_counterexample:
  "fst (search_drug (Some failing_client) aspirin_request sample_world) =
     Inl (HTTPException 500 ''Failed to search for drug information: Connection error.'')
   \<and> \<not> failure_envelope ''Connection error.''
        (fst (search_drug (Some failing_client) aspirin_request sample_world))"
proof -
  have "fst (search_drug (Some failing_client) aspirin_request sample_world) =
     Inl (HTTPException 500 (''Failed to search for drug information: '' @ ''Connection error.''))"
    by (rule search_drug_raised) (simp add: failing_client_def)
  then show ?thesis
    by (simp add: failure_envelope_def)
qed

text \<open>
  Claim C2, amended. Whenever the provider call of a search raises an error with text
  \<^term>\<open>E\<close>, the handler raises \<^verbatim>\<open>HTTPException\<close> with status 500 and the detail
  \<^verbatim>\<open>Failed to search for drug information: \<close> followed by \<^term>\<open>E\<close>, and it has sent
  the provider that one call and no other.
\<close>

theorem upstream_failure_raises_500:
  assumes "answer c (calls w) (search_kwargs (request_prompt request)) = Inl E"
  shows "fst (search_drug (Some c) request w) =
       Inl (HTTPException 500 (''Failed to search for drug information: '' @ E))
     \<and> calls (snd (search_drug (Some c) request w)) =
       calls w @ [search_kwargs (request_prompt request)]"
  using assms by (simp add: search_drug_raised search_drug_calls)

theorem upstream_failure_raises_500_witness:
  "fst (search_drug (Some failing_client) aspirin_request sample_world) =
       Inl (HTTPException 500 ''Failed to search for drug information: Connection error.'')
     \<and> calls (snd (search_drug (Some failing_client) aspirin_request sample_world)) =
       [search_kwargs (request_prompt aspirin_request)]"
proof -
  have h: "answer failing_client (calls sample_world)
      (search_kwargs (request_prompt aspirin_request)) = Inl ''Connection error.''"
    by (simp add: failing_client_def)
  show ?thesis
    using upstream_failure_raises_500 [OF h] by (simp add: sample_world_def)
qed

subsection \<open>C3: no client configured\<close>

text \<open>
  Claim C3. With no client configured, the search handler raises
  \<^verbatim>\<open>HTTPException\<close> with status 503 whatever the request, and leaves the world as it
  found it: no reading of the clock and no call to the provider. Through either route
  the answer is a response with status 503 (or 422 when the request does not pass
  validation), never an unhandled exception.
\<close>

theorem unconfigured_search_is_503:
  "search_drug None request w = (Inl (HTTPException 503 unconfigured_detail), w)
   \<and> post_search_drug None b w =
       (if parse_body b = None then Unprocessable Body else HttpError 503 unconfigured_detail, w)
   \<and> get_search_quick None (Some dn) w =
       (if valid_drug_name dn then HttpError 503 unconfigured_detail else Unprocessable Query, w)"
  by (simp add: search_drug_unconfigured post_search_drug_def get_search_quick_def
      quick_drug_search_def new_DrugSearchRequest_def split: option.split)

theorem unconfigured_search_is_503_witness:
  "search_drug None aspirin_request sample_world =
     (Inl (HTTPException 503 unconfigured_detail), sample_world)
   \<and> post_search_drug None aspirin_body sample_world =
     (HttpError 503 unconfigured_detail, sample_world)
   \<and> get_search_quick None (Some ''aspirin'') sample_world =
     (HttpError 503 unconfigured_detail, sample_world)"
  using unconfigured_search_is_503 [of aspirin_request sample_world aspirin_body "''aspirin''"]
  by (simp add: parse_body_def aspirin_body_def new_DrugSearchRequest_def valid_drug_name_def)

subsection \<open>C4: the quick form\<close>

text \<open>
  Claim C4. For every drug name that passes validation, the quick handler gives what the
  detailed handler gives on that name with dosage and side effects included and
  interactions left out, and the quick route answers as the detailed route does on the
  body that spells these flags out. A name that does not pass is refused by both routes
  with status 422, each naming its own parameter.
\<close>

theorem quick_search_is_detailed_search:
  "(if valid_drug_name dn
    then quick_drug_search openai_client dn w =
           search_drug openai_client
             \<lparr>drug_name = dn, include_dosage = True, include_side_effects = True,
              include_interactions = False\<rparr> w
       \<and> get_search_quick openai_client (Some dn) w =
           post_search_drug openai_client
             \<lparr>body_drug_name = Some dn, body_include_dosage = Some True,
              body_include_side_effects = Some True, body_include_interactions = Some False\<rparr> w
    else get_search_quick openai_client (Some dn) w = (Unprocessable Query, w)
       \<and> post_search_drug openai_client
             \<lparr>body_drug_name = Some dn, body_include_dosage = Some True,
              body_include_side_effects = Some True, body_include_interactions = Some False\<rparr> w
           = (Unprocessable Body, w))"
  by (simp add: quick_drug_search_def get_search_quick_def post_search_drug_def parse_body_def
      new_DrugSearchRequest_def)

theorem quick_search_is_detailed_search_witness:
  "get_search_quick (Some answering_client) (Some ''aspirin'') sample_world =
     post_search_drug (Some answering_client) aspirin_body sample_world
   \<and> quick_drug_search (Some answering_client) ''aspirin'' sample_world =
     search_drug (Some answering_client) aspirin_request sample_world"
  using quick_search_is_detailed_search [of "''aspirin''" "Some answering_client" sample_world]
  by (simp add: valid_drug_name_def aspirin_body_def aspirin_request_def)

subsection \<open>C5: the preview of the prompt\<close>

text \<open>
  Claim C5. Whenever a search returns a response, the preview in its data is the first
  200 characters of the prompt built for the request, followed by three dots.
\<close>

theorem preview_is_first_200_and_ellipsis:
  assumes "fst (search_drug (Some c) request w) = Inr r"
  shows "preview r = Some (PStr (take 200 (request_prompt request) @ ''...''))"
  using assms by (rule search_drug_returned(2))

theorem preview_is_first_200_and_ellipsis_witness:
  "preview (projr (fst (search_drug (Some answering_client) aspirin_request sample_world))) =
     Some (PStr ''\<newline>    Search for comprehensive information about the drug \"aspirin\" and provide detailed, accurate information from authoritative medical sources. \<newline>\<newline>    Please provide the following information in a st...'')"
proof -
  have t: "take 200 (request_prompt aspirin_request) =
      ''\<newline>    Search for comprehensive information about the drug \"aspirin\" and provide detailed, accurate information from authoritative medical sources. \<newline>\<newline>    Please provide the following information in a st''"
    by (simp add: take_200_prompt aspirin_request_def base_prompt_intro_def base_prompt_body_def)
  show ?thesis
    using preview_is_first_200_and_ellipsis [OF answering_client_search [of aspirin_request]]
    by (simp add: t)
qed

subsection \<open>C6: the health check\<close>

text \<open>
  Claim C6. The status of the health check is \<^verbatim>\<open>warning\<close> when no client is
  configured, \<^verbatim>\<open>healthy\<close> when the provider answers the probe and \<^verbatim>\<open>error\<close>
  when the probe raises, in which case the answer carries the text of the error. In all
  three cases the answer has a timestamp, the one reading of the clock the check makes.
\<close>

theorem health_check_three_states:
  "map_of (fst (health_check openai_client w)) ''status'' =
     Some (PStr (case openai_client of
        None \<Rightarrow> ''warning''
      | Some c \<Rightarrow> (case answer c (calls w) health_kwargs of
          Inr response \<Rightarrow> ''healthy''
        | Inl e \<Rightarrow> ''error'')))
   \<and> map_of (fst (health_check openai_client w)) ''error'' =
     (case openai_client of
        None \<Rightarrow> None
      | Some c \<Rightarrow> (case answer c (calls w) health_kwargs of
          Inr response \<Rightarrow> None
        | Inl e \<Rightarrow> Some (PStr e)))
   \<and> map_of (fst (health_check openai_client w)) ''timestamp'' = Some (PIso (clock w (ticks w)))"
  by (simp add: health_check_def datetime_now_def chat_completions_create_def
      split: option.split sum.split)

theorem health_check_three_states_witness:
  "map_of (fst (health_check None sample_world)) ''status'' = Some (PStr ''warning'')
   \<and> map_of (fst (health_check (Some answering_client) sample_world)) ''status'' =
       Some (PStr ''healthy'')
   \<and> map_of (fst (health_check (Some failing_client) sample_world)) ''status'' =
       Some (PStr ''error'')
   \<and> map_of (fst (health_check (Some failing_client) sample_world)) ''error'' =
       Some (PStr ''Connection error.'')
   \<and> map_of (fst (health_check None sample_world)) ''timestamp'' = Some (PIso 0)
   \<and> map_of (fst (health_check (Some answering_client) sample_world)) ''timestamp'' =
       Some (PIso 0)
   \<and> map_of (fst (health_check (Some failing_client) sample_world)) ''timestamp'' =
       Some (PIso 0)"
  using health_check_three_states [of None sample_world]
    health_check_three_states [of "Some answering_client" sample_world]
    health_check_three_states [of "Some failing_client" sample_world]
  by (simp add: answering_client_def failing_client_def sample_world_def)

subsection \<open>C7: names that fail validation\<close>

text \<open>
  Claim C7. A body whose drug name is empty or longer than 100 characters is answered
  by the detailed route with status 422, a client error, and the world is left as it
  was: the handler, and with it the prompt builder and the provider call, is never
  reached.
\<close>

theorem invalid_drug_name_rejected:
  assumes "body_drug_name b = Some dn" and "dn = [] \<or> 100 < length dn"
  shows "post_search_drug openai_client b w = (Unprocessable Body, w)
     \<and> status (fst (post_search_drug openai_client b w)) = 422"
proof -
  from assms(2) have "\<not> valid_drug_name dn"
    by (auto simp add: valid_drug_name_def)
  with assms(1) have "parse_body b = None"
    by (rule parse_body_invalid)
  then show ?thesis
    by (simp add: post_search_drug_def)
qed

text \<open>
  A name of exactly 101 characters, with a client configured.
\<close>

theorem invalid_drug_name_rejected_witness:
  "length (replicate 101 (CHR ''a'')) = 101
   \<and> post_search_drug (Some answering_client) long_name_body sample_world =
       (Unprocessable Body, sample_world)
   \<and> status (fst (post_search_drug (Some answering_client) long_name_body sample_world)) = 422"
proof -
  have n: "body_drug_name long_name_body = Some (replicate 101 (CHR ''a''))"
    by (simp add: long_name_body_def)
  have l: "replicate 101 (CHR ''a'') = [] \<or> 100 < length (replicate 101 (CHR ''a''))"
    by simp
  show ?thesis
    using invalid_drug_name_rejected [OF n l, of "Some answering_client" sample_world]
    by simp
qed

subsection \<open>C8: the call to the provider\<close>

text \<open>
  Claim C8. A search with a configured client adds exactly one call to the log of the
  provider, whether the call then succeeds or raises. The call names the model, passes
  the fixed system instruction and then the built prompt as the user message, bounds the
  output by 2000 tokens, and has no \<^verbatim>\<open>temperature\<close> argument.
\<close>

theorem one_provider_call_per_search:
  "calls (snd (search_drug (Some c) request w)) =
     calls w @ [search_kwargs (request_prompt request)]
   \<and> search_kwargs (request_prompt request) =
     [(''model'', AStr ''gpt-4o-search-preview''),
      (''messages'', AMessages
         [[(''role'', ''system''), (''content'', system_instruction)],
          [(''role'', ''user''), (''content'', request_prompt request)]]),
      (''max_tokens'', AInt 2000)]
   \<and> map_of (search_kwargs (request_prompt request)) ''max_tokens'' = Some (AInt 2000)
   \<and> map_of (search_kwargs (request_prompt request)) ''temperature'' = None"
  by (simp add: search_drug_calls) (simp add: search_kwargs_def)

theorem one_provider_call_per_search_witness:
  "calls (snd (search_drug (Some answering_client) aspirin_request sample_world)) =
     [search_kwargs (create_drug_search_prompt ''aspirin'' True True False)]
   \<and> calls (snd (search_drug (Some failing_client) aspirin_request sample_world)) =
     [search_kwargs (create_drug_search_prompt ''aspirin'' True True False)]
   \<and> map_of (search_kwargs (create_drug_search_prompt ''aspirin'' True True False))
       ''max_tokens'' = Some (AInt 2000)
   \<and> map_of (search_kwargs (create_drug_search_prompt ''aspirin'' True True False))
       ''temperature'' = None"
  using one_provider_call_per_search [of answering_client aspirin_request sample_world]
    one_provider_call_per_search [of failing_client aspirin_request sample_world]
  by (simp add: sample_world_def aspirin_request_def)

subsection \<open>C9: accepted names\<close>

text \<open>
  Claim C9 as the specification words it says that an accepted drug name is not empty
  once trimmed. Nothing trims the name: a body whose drug name is a single space is
  accepted, its name is empty once trimmed, and the search it starts calls the provider
  with the prompt built for that name.
\<close>

theorem blank_name_accepted_counterexample:
  "parse_body blank_body =
     Some \<lparr>drug_name = '' '', include_dosage = True, include_side_effects = True,
           include_interactions = False\<rparr>
   \<and> strip '' '' = []
   \<and> calls (snd (post_search_drug (Some answering_client) blank_body sample_world)) =
       [search_kwargs (create_drug_search_prompt '' '' True True False)]"
proof -
  have p: "parse_body blank_body =
     Some \<lparr>drug_name = '' '', include_dosage = True, include_side_effects = True,
           include_interactions = False\<rparr>"
    by (simp add: parse_body_def blank_body_def new_DrugSearchRequest_def valid_drug_name_def)
  have s: "strip '' '' = []"
    by (simp add: strip_def isspace_def)
  have "calls (snd (post_search_drug (Some answering_client) blank_body sample_world)) =
      calls (snd (search_drug (Some answering_client)
        \<lparr>drug_name = '' '', include_dosage = True, include_side_effects = True,
           include_interactions = False\<rparr> sample_world))"
    by (simp add: post_search_drug_def p split: prod.split)
  then have c: "calls (snd (post_search_drug (Some answering_client) blank_body sample_world)) =
       [search_kwargs (create_drug_search_prompt '' '' True True False)]"
    by (simp add: search_drug_calls sample_world_def)
  from p s c show ?thesis by simp
qed

text \<open>
  Claim C9, amended. Every request accepted by validation carries the drug name of the
  body as it was given, and that name has between 1 and 100 characters, white space
  counted.
\<close>

theorem accepted_name_has_1_to_100_chars:
  assumes "parse_body b = Some request"
  shows "body_drug_name b = Some (drug_name request)
     \<and> 1 \<le> length (drug_name request) \<and> length (drug_name request) \<le> 100"
  using parse_body_valid [OF assms] by (simp add: valid_drug_name_def)

theorem accepted_name_has_1_to_100_chars_witness:
  "body_drug_name blank_body = Some '' '' \<and> 1 \<le> length '' '' \<and> length '' '' \<le> 100"
proof -
  have p: "parse_body blank_body =
     Some \<lparr>drug_name = '' '', include_dosage = True, include_side_effects = True,
           include_interactions = False\<rparr>"
    by (simp add: parse_body_def blank_body_def new_DrugSearchRequest_def valid_drug_name_def)
  show ?thesis
    using accepted_name_has_1_to_100_chars [OF p] by simp
qed

subsection \<open>C10: the flags do not reach the preview\<close>

text \<open>
  Claim C10. For a fixed drug name the first 200 characters of the prompt are the same
  for all combinations of the three flags, and so are the previews of any two searches
  on that name that return a response, whatever their flags, clients and worlds.
\<close>

theorem preview_independent_of_flags:
  "take 200 (create_drug_search_prompt dn d s i) =
     take 200 (create_drug_search_prompt dn d' s' i')
   \<and> (fst (search_drug (Some c)
          \<lparr>drug_name = dn, include_dosage = d, include_side_effects = s,
           include_interactions = i\<rparr> w) = Inr r
      \<and> fst (search_drug (Some c')
          \<lparr>drug_name = dn, include_dosage = d', include_side_effects = s',
           include_interactions = i'\<rparr> w') = Inr r'
      \<longrightarrow> preview r = preview r' \<and> preview r \<noteq> None)"
proof -
  have t: "take 200 (create_drug_search_prompt dn d s i) =
     take 200 (create_drug_search_prompt dn d' s' i')"
    by (simp only: take_200_prompt)
  show ?thesis
    by (auto simp add: t dest!: search_drug_returned(2) simp del: take_append)
qed

theorem preview_independent_of_flags_witness:
  "take 200 (create_drug_search_prompt ''aspirin'' True True True) =
     take 200 (create_drug_search_prompt ''aspirin'' False False False)
   \<and> preview (projr (fst (search_drug (Some answering_client)
          \<lparr>drug_name = ''aspirin'', include_dosage = True, include_side_effects = True,
           include_interactions = True\<rparr> sample_world))) =
     preview (projr (fst (search_drug (Some answering_client)
          \<lparr>drug_name = ''aspirin'', include_dosage = False, include_side_effects = False,
           include_interactions = False\<rparr> sample_world)))
   \<and> preview (projr (fst (search_drug (Some answering_client)
          \<lparr>drug_name = ''aspirin'', include_dosage = True, include_side_effects = True,
           include_interactions = True\<rparr> sample_world))) \<noteq> None"
  using preview_independent_of_flags
    [of "''aspirin''" True True True False False False answering_client sample_world
      "projr (fst (search_drug (Some answering_client)
          \<lparr>drug_name = ''aspirin'', include_dosage = True, include_side_effects = True,
           include_interactions = True\<rparr> sample_world))"
      answering_client sample_world
      "projr (fst (search_drug (Some answering_client)
          \<lparr>drug_name = ''aspirin'', include_dosage = False, include_side_effects = False,
           include_interactions = False\<rparr> sample_world))"]
    answering_client_search
      [of "\<lparr>drug_name = ''aspirin'', include_dosage = True, include_side_effects = True,
           include_interactions = True\<rparr>"]
    answering_client_search
      [of "\<lparr>drug_name = ''aspirin'', include_dosage = False, include_side_effects = False,
           include_interactions = False\<rparr>"]
  by blast

end
